theory Spec2Isabelle
  imports Complex_Main
begin

section \<open>Data model (types/screenShare.ts)\<close>

text \<open>
  Connection identities and room names are strings. A JavaScript number is a finite
  value, an infinity or NaN; the finite ones are taken as rationals, of which the doubles
  are a part, and on which the comparisons of the source are exact.
\<close>

type_synonym socket_id = string
type_synonym room_id = string

datatype jsnum = Fin rat | PosInf | NegInf | NaN

text \<open>The truthiness of a number, as \<open>||\<close> tests it: zero and NaN are falsy.\<close>

fun truthy_num :: "jsnum \<Rightarrow> bool" where
  "truthy_num (Fin r) = (r \<noteq> 0)"
| "truthy_num PosInf = True"
| "truthy_num NegInf = True"
| "truthy_num NaN = False"

text \<open>\<open>x >= t\<close> for a number \<open>x\<close> and a finite literal \<open>t\<close>.\<close>

fun num_ge :: "jsnum \<Rightarrow> rat \<Rightarrow> bool" where
  "num_ge (Fin r) t = (t \<le> r)"
| "num_ge PosInf t = True"
| "num_ge NegInf t = False"
| "num_ge NaN t = False"

text \<open>\<open>{ ideal?: number; max?: number }\<close>\<close>

record num_range =
  ideal :: "jsnum option"
  max_val :: "jsnum option"

text \<open>
  The \<open>video\<close> part of \<open>ScreenShareConstraints\<close>. Every field is optional; the
  display surface requested is \<open>displaySurface_req\<close> here, the name
  \<open>displaySurface\<close> being kept for the field of \<open>ScreenShareState\<close>.
\<close>

record video_constraints =
  cursor :: "string option"
  displaySurface_req :: "string option"
  frameRate :: "num_range option"
  width :: "num_range option"
  height :: "num_range option"

datatype audio_constraints =
  Audio_flag bool
| Audio_processing "bool option" "bool option" "bool option"

text \<open>
  The manager takes \<open>constraints: any\<close> and reads it through \<open>?.\<close> only, and a caller
  passes \<open>{}\<close>: so \<open>video\<close> may be absent, and so may the whole object
  (\<open>None\<close> where a \<open>constraints\<close> is expected).
\<close>

record constraints =
  video :: "video_constraints option"
  audio :: "audio_constraints option"

datatype quality_tier = Low | Medium | High | Ultra

record ScreenShareState =
  isScreenSharing :: bool
  micOn :: bool
  camOn :: bool
  quality :: "quality_tier option"
  displaySurface :: "string option"

datatype error_type =
  Permission | Not_supported | Not_found | Aborted | Connection | Unknown

record ScreenShareError =
  err_name :: string
  err_message :: string
  err_code :: "string option"
  err_type :: error_type

datatype event_type = Start | Stop | Error | Quality_change

text \<open>The \<open>data\<close> of an event: \<open>{ constraints }\<close> of a start, \<open>{ error }\<close> of an error.\<close>

datatype event_data =
  Start_data "constraints option"
| Error_data ScreenShareError

record ScreenShareEvent =
  etype :: event_type
  edata :: "event_data option"
  timestamp :: nat
  userId :: socket_id
  roomId :: room_id

section \<open>ScreenShareManager\<close>

record manager =
  activeScreenShares :: "socket_id \<rightharpoonup> ScreenShareState"
  screenShareHistory :: "socket_id \<rightharpoonup> ScreenShareEvent list"

definition new_manager :: manager where
  "new_manager = \<lparr>activeScreenShares = Map.empty, screenShareHistory = Map.empty\<rparr>"

text \<open>\<open>constraints?.video?.<field>?.ideal\<close>: undefined as soon as one link is absent.\<close>

definition ideal_of ::
  "(video_constraints \<Rightarrow> num_range option) \<Rightarrow> constraints option \<Rightarrow> jsnum option" where
  "ideal_of sel c =
     (case c of None \<Rightarrow> None
      | Some c' \<Rightarrow> (case video c' of None \<Rightarrow> None
          | Some v \<Rightarrow> (case sel v of None \<Rightarrow> None | Some r \<Rightarrow> ideal r)))"

text \<open>\<open>x || d\<close> on an optional number: the default replaces an absent or falsy \<open>x\<close>.\<close>

definition or_default :: "jsnum option \<Rightarrow> rat \<Rightarrow> jsnum" where
  "or_default x d =
     (case x of None \<Rightarrow> Fin d | Some n \<Rightarrow> if truthy_num n then n else Fin d)"

text \<open>The comparisons of \<open>determineQuality\<close>, on the width and height it has settled on.\<close>

definition classify :: "jsnum \<Rightarrow> jsnum \<Rightarrow> quality_tier" where
  "classify w h =
     (if num_ge w 3840 \<and> num_ge h 2160 then Ultra
      else if num_ge w 2560 \<and> num_ge h 1440 then High
      else if num_ge w 1920 \<and> num_ge h 1080 then Medium
      else Low)"

definition determineQuality :: "constraints option \<Rightarrow> quality_tier" where
  "determineQuality c =
     (let w = or_default (ideal_of width c) 1920;
          h = or_default (ideal_of height c) 1080;
          fr = or_default (ideal_of frameRate c) 30
      in classify w h)"

text \<open>\<open>constraints?.video?.displaySurface || "unknown"\<close>: the empty string is falsy.\<close>

definition surface_label :: "constraints option \<Rightarrow> string" where
  "surface_label c =
     (case c of None \<Rightarrow> ''unknown''
      | Some c' \<Rightarrow> (case video c' of None \<Rightarrow> ''unknown''
          | Some v \<Rightarrow> (case displaySurface_req v of None \<Rightarrow> ''unknown''
              | Some s \<Rightarrow> if s = [] then ''unknown'' else s)))"

text \<open>\<open>this.screenShareHistory.get(userId) || []\<close>\<close>

definition getMetrics :: "manager \<Rightarrow> socket_id \<Rightarrow> ScreenShareEvent list" where
  "getMetrics m uid = (case screenShareHistory m uid of None \<Rightarrow> [] | Some h \<Rightarrow> h)"

text \<open>\<open>push\<close>, then one \<open>shift\<close> when the length has passed 50.\<close>

definition addToHistory :: "socket_id \<Rightarrow> ScreenShareEvent \<Rightarrow> manager \<Rightarrow> manager" where
  "addToHistory uid ev m =
     (let pushed = getMetrics m uid @ [ev];
          kept = (if length pushed > 50 then tl pushed else pushed)
      in m\<lparr>screenShareHistory := (screenShareHistory m)(uid \<mapsto> kept)\<rparr>)"

text \<open>\<open>this.activeScreenShares.get(userId) || null\<close>: a state object is never falsy.\<close>

definition getScreenShareState :: "manager \<Rightarrow> socket_id \<Rightarrow> ScreenShareState option" where
  "getScreenShareState m uid = activeScreenShares m uid"

text \<open>
  The operations read the clock once (\<open>Date.now()\<close>); the value read is the argument
  \<open>now\<close>. Each returns its event with the manager it leaves.
\<close>

definition startScreenShare ::
  "socket_id \<Rightarrow> room_id \<Rightarrow> constraints option \<Rightarrow> nat \<Rightarrow> manager
     \<Rightarrow> ScreenShareEvent \<times> manager" where
  "startScreenShare uid rid c now m =
     (let event = \<lparr>etype = Start, edata = Some (Start_data c), timestamp = now,
                    userId = uid, roomId = rid\<rparr>;
          m1 = m\<lparr>activeScreenShares := (activeScreenShares m)(uid \<mapsto>
                 \<lparr>isScreenSharing = True, micOn = True, camOn = False,
                  quality = Some (determineQuality c),
                  displaySurface = Some (surface_label c)\<rparr>)\<rparr>
      in (event, addToHistory uid event m1))"

definition stopScreenShare ::
  "socket_id \<Rightarrow> room_id \<Rightarrow> nat \<Rightarrow> manager \<Rightarrow> ScreenShareEvent \<times> manager" where
  "stopScreenShare uid rid now m =
     (let event = \<lparr>etype = Stop, edata = None, timestamp = now,
                    userId = uid, roomId = rid\<rparr>;
          m1 = (case activeScreenShares m uid of
                  None \<Rightarrow> m
                | Some currentState \<Rightarrow>
                    m\<lparr>activeScreenShares := (activeScreenShares m)(uid \<mapsto>
                        currentState\<lparr>isScreenSharing := False, camOn := True\<rparr>)\<rparr>)
      in (event, addToHistory uid event m1))"

definition handleScreenShareError ::
  "socket_id \<Rightarrow> room_id \<Rightarrow> ScreenShareError \<Rightarrow> nat \<Rightarrow> manager
     \<Rightarrow> ScreenShareEvent \<times> manager" where
  "handleScreenShareError uid rid err now m =
     (let event = \<lparr>etype = Error, edata = Some (Error_data err), timestamp = now,
                    userId = uid, roomId = rid\<rparr>;
          m1 = m\<lparr>activeScreenShares := (activeScreenShares m)(uid := None)\<rparr>
      in (event, addToHistory uid event m1))"

definition cleanup :: "socket_id \<Rightarrow> manager \<Rightarrow> manager" where
  "cleanup uid m = m\<lparr>activeScreenShares := (activeScreenShares m)(uid := None)\<rparr>"

section \<open>Session coordinator (index.ts)\<close>

text \<open>
  Modelled from the spec: the \<open>UserManager\<close> class (\<open>managers/UserManger\<close>) is
  imported by \<open>index.ts\<close> and is not among the sources. The spec's Connection Registry
  keeps one entry per live connection, with a display name and a nullable room, looked up
  by identity (\<open>lookup\<close>) and deleted by an idempotent \<open>remove\<close>. The table is the
  field \<open>users\<close> of the world below.
\<close>

record user_entry =
  user_name :: string
  user_room :: "room_id option"

text \<open>
  What a handler sends. \<open>To_socket\<close> is \<open>socket.emit\<close> (the origin alone),
  \<open>To_room_except r s\<close> is \<open>socket.to(r).emit\<close> (the room \<open>r\<close> without the sender
  \<open>s\<close>), \<open>To_room\<close> is \<open>socket.nsp.to(r).emit\<close> and \<open>socket.nsp.in(r).emit\<close>
  (the whole room).
\<close>

datatype target =
  To_socket socket_id
| To_room_except room_id socket_id
| To_room room_id

text \<open>
  A flag of the \<open>media-state-change\<close> payload as it arrives: left out
  (\<open>undefined\<close>), \<open>null\<close>, or a boolean. Only a true boolean is truthy.
\<close>

datatype js_flag = Flag_undefined | Flag_null | Flag bool

fun flag_truthy :: "js_flag \<Rightarrow> bool" where
  "flag_truthy (Flag b) = b"
| "flag_truthy Flag_null = False"
| "flag_truthy Flag_undefined = False"

datatype payload =
  Peer_started socket_id "ScreenShareState option" nat
| Start_success ScreenShareEvent
| Error_payload "ScreenShareError option"
| Chat_system string nat
| Peer_stopped_reason socket_id string nat
| Peer_media_state js_flag js_flag js_flag socket_id socket_id
| Room_state "(socket_id \<times> ScreenShareState) list"
| Room_state_failed string

text \<open>
  \<open>Emit\<close> carries the event name; \<open>Reply s\<close> is a call of the acknowledgement
  callback that came with a request of \<open>s\<close>.
\<close>

datatype emission =
  Emit target string payload
| Reply socket_id payload

text \<open>
  The process-wide state the handlers share: the manager, the user table, the
  transport's room table (\<open>io.sockets.adapter.rooms\<close>, a set per room, listed in
  insertion order), the heartbeat timers, and what has been sent so far, in order.
\<close>

record world =
  mgr :: manager
  users :: "socket_id \<rightharpoonup> user_entry"
  rooms :: "room_id \<rightharpoonup> socket_id list"
  heartbeats :: "socket_id set"
  outbox :: "emission list"

definition emit :: "emission \<Rightarrow> world \<Rightarrow> world" where
  "emit e w = w\<lparr>outbox := outbox w @ [e]\<rparr>"

text \<open>
  A handler either runs to its end or lets an exception out: \<open>Uncaught n w\<close> is an
  exception named \<open>n\<close> that leaves the handler, and the world it leaves behind.
\<close>

datatype outcome = Completed world | Uncaught string world

subsection \<open>screenshare:start\<close>

record start_payload =
  sp_roomId :: room_id
  sp_constraints :: "constraints option"

text \<open>
  What the block does is kept in one trace, in the order in which it happens: a write
  to the store (the manager as the call has left it) or a message sent. \<open>commit\<close>
  installs the manager that a call of the store returned; \<open>send\<close> builds its message
  from the world as it is when the message is sent, as the source evaluates the
  arguments of \<open>emit\<close> at the call, and hands it to \<open>emit\<close>.
\<close>

datatype effect = Store_write manager | Sent emission

definition commit :: "manager \<Rightarrow> world \<times> effect list \<Rightarrow> world \<times> effect list" where
  "commit m s = ((fst s)\<lparr>mgr := m\<rparr>, snd s @ [Store_write m])"

definition send ::
  "(world \<Rightarrow> emission) \<Rightarrow> world \<times> effect list \<Rightarrow> world \<times> effect list" where
  "send e s = (emit (e (fst s)) (fst s), snd s @ [Sent (e (fst s))])"

text \<open>
  The statements of the \<open>try\<close> block, in their order, from the world \<open>w\<close> and an
  empty trace: the call of \<open>startScreenShare\<close>, the broadcast to the room with the
  state read back from the store, the acknowledgement to the sender.
\<close>

definition screenshare_start_run ::
  "world \<Rightarrow> socket_id \<Rightarrow> start_payload \<Rightarrow> nat \<Rightarrow> world \<times> effect list" where
  "screenshare_start_run w sid p now =
     (let (event, m1) = startScreenShare sid (sp_roomId p) (sp_constraints p) now (mgr w);
          s1 = commit m1 (w, []);
          s2 = send (\<lambda>w1. Emit (To_room_except (sp_roomId p) sid) ''screenshare:peer-started''
                 (Peer_started sid (getScreenShareState (mgr w1) sid) (timestamp event))) s1
      in send (\<lambda>w2. Emit (To_socket sid) ''screenshare:start-success''
                 (Start_success event)) s2)"

definition screenshare_start_try ::
  "world \<Rightarrow> socket_id \<Rightarrow> start_payload \<Rightarrow> nat \<Rightarrow> world" where
  "screenshare_start_try w sid p now = fst (screenshare_start_run w sid p now)"

text \<open>
  The caught value: \<open>error.name\<close> and \<open>error.message\<close>, each possibly absent.
  \<open>x || d\<close> on an optional string takes \<open>d\<close> for an absent or empty \<open>x\<close>.
\<close>

record js_thrown =
  thrown_name :: "string option"
  thrown_message :: "string option"

definition or_string :: "string option \<Rightarrow> string \<Rightarrow> string" where
  "or_string x d = (case x of None \<Rightarrow> d | Some s \<Rightarrow> if s = [] then d else s)"

text \<open>
  The \<open>catch\<close> block, run in the world \<open>w\<close> that the \<open>try\<close> block had reached when
  \<open>error\<close> was thrown. \<open>errorEvent.data?.error\<close> is read back from the event.
\<close>

definition screenshare_start_catch ::
  "world \<Rightarrow> socket_id \<Rightarrow> room_id \<Rightarrow> js_thrown \<Rightarrow> nat \<Rightarrow> world" where
  "screenshare_start_catch w sid rid error now =
     (let (errorEvent, m1) = handleScreenShareError sid rid
            \<lparr>err_name = or_string (thrown_name error) ''UnknownError'',
             err_message = or_string (thrown_message error) ''Failed to start screen sharing'',
             err_code = None, err_type = Unknown\<rparr> now (mgr w);
          w1 = w\<lparr>mgr := m1\<rparr>
      in emit (Emit (To_socket sid) ''screenshare:error''
           (Error_payload (case edata errorEvent of
                             Some (Error_data e) \<Rightarrow> Some e | _ \<Rightarrow> None))) w1)"

text \<open>
  The handler is \<open>async ({ roomId, constraints }) => { try { ... } catch { ... } }\<close>.
  The payload is what the client sent, \<open>None\<close> when it sent none (\<open>undefined\<close>) or
  \<open>null\<close>. Destructuring it is part of binding the parameter, which happens before the
  body, hence before \<open>try\<close>: on \<open>None\<close> it throws a \<open>TypeError\<close> that no \<open>catch\<close>
  encloses, and the handler's promise is rejected. No statement of the \<open>try\<close> block
  raises in this embedding (the manager's operations are total and \<open>emit\<close> appends to
  the outbox), so a present payload runs the block to its end.
\<close>

definition on_screenshare_start ::
  "world \<Rightarrow> socket_id \<Rightarrow> start_payload option \<Rightarrow> nat \<Rightarrow> outcome" where
  "on_screenshare_start w sid payload now =
     (case payload of
        None \<Rightarrow> Uncaught ''TypeError'' w
      | Some p \<Rightarrow> Completed (screenshare_start_try w sid p now))"

subsection \<open>screenshare:get-room-state\<close>

text \<open>
  \<open>rooms.get(roomId) ?? new Set()\<close>, then the \<open>reduce\<close> over the members, which
  pushes \<open>[socketId, state]\<close> when \<open>state?.isScreenSharing\<close>.
\<close>

definition roomSockets :: "world \<Rightarrow> room_id \<Rightarrow> socket_id list" where
  "roomSockets w rid = (case rooms w rid of None \<Rightarrow> [] | Some s \<Rightarrow> s)"

definition room_state_step ::
  "manager \<Rightarrow> (socket_id \<times> ScreenShareState) list \<Rightarrow> socket_id
     \<Rightarrow> (socket_id \<times> ScreenShareState) list" where
  "room_state_step m acc socketId =
     (case getScreenShareState m socketId of
        None \<Rightarrow> acc
      | Some state \<Rightarrow> if isScreenSharing state then acc @ [(socketId, state)] else acc)"

definition room_state_data :: "world \<Rightarrow> room_id \<Rightarrow> (socket_id \<times> ScreenShareState) list" where
  "room_state_data w rid = foldl (room_state_step (mgr w)) [] (roomSockets w rid)"

text \<open>
  The handler is \<open>({ roomId }, callback) => { try { ...; callback(ok) } catch {
  callback(failed) } }\<close>. An absent payload fails the destructuring, as above. Where the
  client gave no acknowledgement function, \<open>callback(...)\<close> throws in the \<open>try\<close>
  block and again in the \<open>catch\<close> block, from which it escapes.
\<close>

definition on_get_room_state ::
  "world \<Rightarrow> socket_id \<Rightarrow> room_id option \<Rightarrow> bool \<Rightarrow> outcome" where
  "on_get_room_state w sid payload has_callback =
     (case payload of
        None \<Rightarrow> Uncaught ''TypeError'' w
      | Some rid \<Rightarrow>
          if has_callback
          then Completed (emit (Reply sid (Room_state (room_state_data w rid))) w)
          else Uncaught ''TypeError'' w)"

subsection \<open>media-state-change\<close>

record media_payload =
  mp_isScreenSharing :: js_flag
  mp_micOn :: js_flag
  mp_camOn :: js_flag

text \<open>\<open>userManager.getUser(socket.id)?.roomId\<close>, when truthy (present and not empty).\<close>

definition current_room :: "world \<Rightarrow> socket_id \<Rightarrow> room_id option" where
  "current_room w sid =
     (case users w sid of
        None \<Rightarrow> None
      | Some u \<Rightarrow> (case user_room u of
                     None \<Rightarrow> None
                   | Some r \<Rightarrow> if r = [] then None else Some r))"

text \<open>\<open>currentState?.isScreenSharing\<close> as a condition.\<close>

definition sharing_now :: "manager \<Rightarrow> socket_id \<Rightarrow> bool" where
  "sharing_now m sid =
     (case getScreenShareState m sid of None \<Rightarrow> False | Some s \<Rightarrow> isScreenSharing s)"

text \<open>
  The reconciliation inside \<open>if (isScreenSharing !== undefined)\<close>, on the truthiness
  of the flag; \<open>{}\<close> is the constraints object with no field. The test lets \<open>null\<close>
  through, which is falsy: it stops an active share, as \<open>false\<close> does.
\<close>

definition reconcile :: "manager \<Rightarrow> socket_id \<Rightarrow> room_id \<Rightarrow> bool \<Rightarrow> nat \<Rightarrow> manager" where
  "reconcile m sid rid sharing now =
     (if sharing \<and> \<not> sharing_now m sid
      then snd (startScreenShare sid rid (Some \<lparr>video = None, audio = None\<rparr>) now m)
      else if \<not> sharing \<and> sharing_now m sid
      then snd (stopScreenShare sid rid now m)
      else m)"

definition on_media_state_change ::
  "world \<Rightarrow> socket_id \<Rightarrow> media_payload option \<Rightarrow> nat \<Rightarrow> outcome" where
  "on_media_state_change w sid payload now =
     (case payload of
        None \<Rightarrow> Uncaught ''TypeError'' w
      | Some p \<Rightarrow>
          (case current_room w sid of
             None \<Rightarrow> Completed w
           | Some rid \<Rightarrow>
               (let w1 = (if mp_isScreenSharing p = Flag_undefined then w
                          else w\<lparr>mgr := reconcile (mgr w) sid rid
                                         (flag_truthy (mp_isScreenSharing p)) now\<rparr>)
                in Completed (emit (Emit (To_room_except rid sid) ''peer-media-state-change''
                     (Peer_media_state (mp_isScreenSharing p) (mp_micOn p) (mp_camOn p)
                        sid sid)) w1))))"

subsection \<open>disconnect\<close>

text \<open>
  Modelled from the spec: \<open>userManager.removeUser\<close> (source absent) deletes the entry
  of the identity, and is a no-op on an identity already removed.
\<close>

definition removeUser :: "socket_id \<Rightarrow> world \<Rightarrow> world" where
  "removeUser sid w = w\<lparr>users := (users w)(sid := None)\<rparr>"

text \<open>
  The handler takes the close reason, which it only logs. The clock is read once for
  the chat notice (\<open>t1\<close>) and once for the screen-share notice (\<open>t2\<close>). The statements
  are in the order of the source: the timer, \<open>cleanup\<close>, the user lookup, the two
  notices, \<open>removeUser\<close>.
\<close>

definition disconnect_notices :: "world \<Rightarrow> socket_id \<Rightarrow> nat \<Rightarrow> nat \<Rightarrow> world" where
  "disconnect_notices w sid t1 t2 =
     (case users w sid of
        None \<Rightarrow> w
      | Some u \<Rightarrow>
          (case current_room w sid of
             None \<Rightarrow> w
           | Some rid \<Rightarrow>
               (let w1 = emit (Emit (To_room (''chat:'' @ rid)) ''chat:system''
                           (Chat_system (user_name u @ '' left the chat'') t1)) w
                in if sharing_now (mgr w1) sid
                   then emit (Emit (To_room rid) ''screenshare:peer-stopped''
                          (Peer_stopped_reason sid ''user-disconnected'' t2)) w1
                   else w1)))"

definition on_disconnect :: "world \<Rightarrow> socket_id \<Rightarrow> nat \<Rightarrow> nat \<Rightarrow> world" where
  "on_disconnect w sid t1 t2 =
     (let w1 = w\<lparr>heartbeats := heartbeats w - {sid}\<rparr>;
          w2 = w1\<lparr>mgr := cleanup sid (mgr w1)\<rparr>;
          w3 = disconnect_notices w2 sid t1 t2
      in removeUser sid w3)"

section \<open>Definitions used to state the properties\<close>

text \<open>
  The tier as the specification words it, on a requested width and height: the
  thresholds in descending order, the first that matches wins.
\<close>

definition spec_tier :: "rat \<Rightarrow> rat \<Rightarrow> quality_tier" where
  "spec_tier w h =
     (if w \<ge> 3840 \<and> h \<ge> 2160 then Ultra
      else if w \<ge> 2560 \<and> h \<ge> 1440 then High
      else if w \<ge> 1920 \<and> h \<ge> 1080 then Medium
      else Low)"

text \<open>The constraints \<open>{ video: { width: { ideal: w }, height: { ideal: h } } }\<close>.\<close>

definition requesting :: "rat \<Rightarrow> rat \<Rightarrow> constraints option" where
  "requesting w h =
     Some \<lparr>video = Some \<lparr>cursor = None, displaySurface_req = None, frameRate = None,
                          width = Some \<lparr>ideal = Some (Fin w), max_val = None\<rparr>,
                          height = Some \<lparr>ideal = Some (Fin h), max_val = None\<rparr>\<rparr>,
           audio = None\<rparr>"

text \<open>The constraints \<open>{ video: { height: { ideal: h } } }\<close>, with no width.\<close>

definition requesting_height :: "rat \<Rightarrow> constraints option" where
  "requesting_height h =
     Some \<lparr>video = Some \<lparr>cursor = None, displaySurface_req = None, frameRate = None,
                          width = None,
                          height = Some \<lparr>ideal = Some (Fin h), max_val = None\<rparr>\<rparr>,
           audio = None\<rparr>"

text \<open>The constraints \<open>{ video: { width: { ideal: w } } }\<close>, with no height.\<close>

definition requesting_width :: "rat \<Rightarrow> constraints option" where
  "requesting_width w =
     Some \<lparr>video = Some \<lparr>cursor = None, displaySurface_req = None, frameRate = None,
                          width = Some \<lparr>ideal = Some (Fin w), max_val = None\<rparr>,
                          height = None\<rparr>,
           audio = None\<rparr>"

text \<open>
  A sequence of appends, each to the history of one identity, and the events among
  them that went to a given identity, in their order of arrival.
\<close>

fun append_all :: "(socket_id \<times> ScreenShareEvent) list \<Rightarrow> manager \<Rightarrow> manager" where
  "append_all [] m = m"
| "append_all ((uid, ev) # rest) m = append_all rest (addToHistory uid ev m)"

definition appended_for ::
  "socket_id \<Rightarrow> (socket_id \<times> ScreenShareEvent) list \<Rightarrow> ScreenShareEvent list" where
  "appended_for uid xs = map snd (filter (\<lambda>x. fst x = uid) xs)"

text \<open>The public operations of the manager, and a run of them from a given manager.\<close>

datatype manager_op =
  Op_start socket_id room_id "constraints option" nat
| Op_stop socket_id room_id nat
| Op_error socket_id room_id ScreenShareError nat
| Op_cleanup socket_id

fun apply_op :: "manager_op \<Rightarrow> manager \<Rightarrow> manager" where
  "apply_op (Op_start uid rid c now) m = snd (startScreenShare uid rid c now m)"
| "apply_op (Op_stop uid rid now) m = snd (stopScreenShare uid rid now m)"
| "apply_op (Op_error uid rid err now) m = snd (handleScreenShareError uid rid err now m)"
| "apply_op (Op_cleanup uid) m = cleanup uid m"

definition run_ops :: "manager_op list \<Rightarrow> manager \<Rightarrow> manager" where
  "run_ops ops m = fold apply_op ops m"

text \<open>An event of identity \<open>u\<close> told apart by its timestamp.\<close>

definition tick :: "socket_id \<Rightarrow> nat \<Rightarrow> ScreenShareEvent" where
  "tick u n = \<lparr>etype = Stop, edata = None, timestamp = n, userId = u, roomId = ''r1''\<rparr>"

text \<open>
  The scenario of the specification: \<open>u1\<close> (named alice) and \<open>u2\<close> (bob) are in room
  \<open>r1\<close>, nothing has been shared or sent yet.
\<close>

definition world0 :: world where
  "world0 =
     \<lparr>mgr = new_manager,
      users = [''u1'' \<mapsto> \<lparr>user_name = ''alice'', user_room = Some ''r1''\<rparr>,
               ''u2'' \<mapsto> \<lparr>user_name = ''bob'', user_room = Some ''r1''\<rparr>],
      rooms = [''r1'' \<mapsto> [''u1'', ''u2'']],
      heartbeats = {''u1'', ''u2''},
      outbox = []\<rparr>"

text \<open>Then \<open>u1\<close> sends \<open>screenshare:start\<close> for 1920 by 1080, at time 1000.\<close>

definition world1 :: world where
  "world1 = screenshare_start_try world0 ''u1''
              \<lparr>sp_roomId = ''r1'', sp_constraints = requesting 1920 1080\<rparr> 1000"

section \<open>Lemmas on the manager\<close>

lemma ideal_of_requesting:
  "ideal_of width (requesting w h) = Some (Fin w)"
  "ideal_of height (requesting w h) = Some (Fin h)"
  by (simp_all add: ideal_of_def requesting_def)

lemma ideal_of_requesting_height:
  "ideal_of width (requesting_height h) = None"
  "ideal_of height (requesting_height h) = Some (Fin h)"
  by (simp_all add: ideal_of_def requesting_height_def)

lemma ideal_of_requesting_width:
  "ideal_of width (requesting_width w) = Some (Fin w)"
  "ideal_of height (requesting_width w) = None"
  by (simp_all add: ideal_of_def requesting_width_def)

lemma ideal_of_empty_object:
  "ideal_of sel (Some \<lparr>video = None, audio = None\<rparr>) = None"
  by (simp add: ideal_of_def)

lemma surface_label_requesting: "surface_label (requesting w h) = ''unknown''"
  by (simp add: surface_label_def requesting_def)

lemma determineQuality_1080p: "determineQuality (requesting 1920 1080) = Medium"
  by (simp add: determineQuality_def or_default_def classify_def ideal_of_requesting Let_def)

lemma getMetrics_new_manager: "getMetrics new_manager uid = []"
  by (simp add: getMetrics_def new_manager_def)

lemma getMetrics_addToHistory:
  "getMetrics (addToHistory u ev m) v =
     (if v = u
      then (if length (getMetrics m u @ [ev]) > 50
            then tl (getMetrics m u @ [ev]) else getMetrics m u @ [ev])
      else getMetrics m v)"
  by (simp add: addToHistory_def getMetrics_def Let_def)

lemma activeScreenShares_addToHistory:
  "activeScreenShares (addToHistory u ev m) = activeScreenShares m"
  by (simp add: addToHistory_def Let_def)

text \<open>One push followed by the conditional shift keeps the last 50 of what was there.\<close>

lemma push_shift_last50:
  assumes "length h \<le> 50"
  shows "(if length (h @ [e]) > 50 then tl (h @ [e]) else h @ [e])
           = drop (length (h @ [e]) - 50) (h @ [e])"
proof (cases "length h = 50")
  case True
  then have "h \<noteq> []" by auto
  with True show ?thesis by (simp add: drop_Suc drop_tl)
next
  case False
  with assms show ?thesis by simp
qed

lemma last50_of_last50:
  "drop (length (drop (length xs - 50) xs @ ys) - 50) (drop (length xs - 50) xs @ ys)
     = drop (length (xs @ ys) - 50) (xs @ ys)"
  by (cases "length xs \<le> 50") (auto simp: drop_append add.commute)

lemma addToHistory_bounded:
  assumes "length (getMetrics m v) \<le> 50"
  shows "length (getMetrics (addToHistory u ev m) v) \<le> 50"
  using assms by (auto simp: getMetrics_addToHistory)

lemma last_getMetrics_addToHistory: "last (getMetrics (addToHistory u ev m) u) = ev"
  by (cases "getMetrics m u") (auto simp: getMetrics_addToHistory)

lemma append_all_last50:
  "length (getMetrics m uid) \<le> 50 \<Longrightarrow>
   getMetrics (append_all xs m) uid =
     drop (length (getMetrics m uid @ appended_for uid xs) - 50)
          (getMetrics m uid @ appended_for uid xs)"
proof (induction xs arbitrary: m)
  case Nil
  then show ?case by (simp add: appended_for_def)
next
  case (Cons x xs)
  obtain u ev where x: "x = (u, ev)" by (cases x)
  let ?h = "getMetrics m uid"
  let ?m' = "addToHistory u ev m"
  have unfold: "getMetrics (append_all (x # xs) m) uid = getMetrics (append_all xs ?m') uid"
    by (simp add: x)
  show ?case
  proof (cases "u = uid")
    case True
    have step: "getMetrics ?m' uid = drop (length (?h @ [ev]) - 50) (?h @ [ev])"
      using push_shift_last50[OF Cons.prems, of ev] True
      by (simp add: getMetrics_addToHistory)
    then have len: "length (getMetrics ?m' uid) \<le> 50" by simp
    note unfold
    also have "getMetrics (append_all xs ?m') uid
        = drop (length (getMetrics ?m' uid @ appended_for uid xs) - 50)
               (getMetrics ?m' uid @ appended_for uid xs)"
      by (rule Cons.IH[OF len])
    also have "\<dots> = drop (length ((?h @ [ev]) @ appended_for uid xs) - 50)
                          ((?h @ [ev]) @ appended_for uid xs)"
      unfolding step by (rule last50_of_last50)
    also have "(?h @ [ev]) @ appended_for uid xs = ?h @ appended_for uid (x # xs)"
      using True by (simp add: x appended_for_def)
    finally show ?thesis .
  next
    case False
    have same: "getMetrics ?m' uid = ?h"
      using False by (simp add: getMetrics_addToHistory)
    note unfold
    also have "getMetrics (append_all xs ?m') uid
        = drop (length (getMetrics ?m' uid @ appended_for uid xs) - 50)
               (getMetrics ?m' uid @ appended_for uid xs)"
      by (rule Cons.IH) (simp add: same Cons.prems)
    finally show ?thesis using False by (simp add: same x appended_for_def)
  qed
qed

text \<open>Every public operation keeps every history within the bound.\<close>

lemma apply_op_bounded:
  assumes "length (getMetrics m v) \<le> 50"
  shows "length (getMetrics (apply_op opn m) v) \<le> 50"
proof (cases opn)
  case (Op_start uid rid c now)
  have "getMetrics (m\<lparr>activeScreenShares := a\<rparr>) v = getMetrics m v" for a
    by (simp add: getMetrics_def)
  with assms Op_start show ?thesis
    by (simp add: startScreenShare_def Let_def addToHistory_bounded)
next
  case (Op_stop uid rid now)
  have "getMetrics (m\<lparr>activeScreenShares := a\<rparr>) v = getMetrics m v" for a
    by (simp add: getMetrics_def)
  with assms Op_stop show ?thesis
    by (simp add: stopScreenShare_def Let_def addToHistory_bounded split: option.splits)
next
  case (Op_error uid rid err now)
  have "getMetrics (m\<lparr>activeScreenShares := a\<rparr>) v = getMetrics m v" for a
    by (simp add: getMetrics_def)
  with assms Op_error show ?thesis
    by (simp add: handleScreenShareError_def Let_def addToHistory_bounded)
next
  case (Op_cleanup uid)
  with assms show ?thesis by (simp add: cleanup_def getMetrics_def)
qed

lemma run_ops_bounded:
  "length (getMetrics m v) \<le> 50 \<Longrightarrow> length (getMetrics (run_ops ops m) v) \<le> 50"
  unfolding run_ops_def
  by (induction ops arbitrary: m) (simp_all add: apply_op_bounded)

section \<open>Lemmas on the coordinator\<close>

text \<open>The world that the \<open>try\<close> block of \<open>screenshare:start\<close> leaves, step by step.\<close>

lemma screenshare_start_try_unfold:
  "screenshare_start_try w sid p now =
     (let (event, m1) = startScreenShare sid (sp_roomId p) (sp_constraints p) now (mgr w);
          w1 = w\<lparr>mgr := m1\<rparr>;
          w2 = emit (Emit (To_room_except (sp_roomId p) sid) ''screenshare:peer-started''
                 (Peer_started sid (getScreenShareState (mgr w1) sid) (timestamp event))) w1
      in emit (Emit (To_socket sid) ''screenshare:start-success'' (Start_success event)) w2)"
  by (simp add: screenshare_start_try_def screenshare_start_run_def commit_def send_def
        Let_def split_def)

lemma room_state_fold:
  "foldl (room_state_step m) acc xs =
     acc @ concat (map (\<lambda>u. case getScreenShareState m u of
                               None \<Rightarrow> []
                             | Some st \<Rightarrow> if isScreenSharing st then [(u, st)] else []) xs)"
  by (induction xs arbitrary: acc) (auto simp: room_state_step_def split: option.splits)

lemma room_state_set:
  "set (room_state_data w rid) =
     {(u, st). u \<in> set (roomSockets w rid) \<and> getScreenShareState (mgr w) u = Some st
               \<and> isScreenSharing st}"
  by (auto simp: room_state_data_def room_state_fold split: option.splits if_splits)

lemma room_state_distinct_aux:
  "distinct xs \<Longrightarrow>
   distinct (concat (map (\<lambda>u. case getScreenShareState m u of
                               None \<Rightarrow> []
                             | Some st \<Rightarrow> if isScreenSharing st then [(u, st)] else []) xs))"
  by (induction xs) (auto split: option.splits if_splits)

lemma room_state_distinct:
  "distinct (roomSockets w rid) \<Longrightarrow> distinct (room_state_data w rid)"
  by (simp add: room_state_data_def room_state_fold room_state_distinct_aux)

text \<open>
  What the \<open>catch\<close> block of \<open>screenshare:start\<close> does in the world it is given: one
  message, to the origin, carrying the error that the manager has recorded while
  deleting the state of the origin.
\<close>

lemma screenshare_start_catch_effects:
  "outbox (screenshare_start_catch w sid rid error now) = outbox w @
     [Emit (To_socket sid) ''screenshare:error''
        (Error_payload (Some \<lparr>err_name = or_string (thrown_name error) ''UnknownError'',
           err_message = or_string (thrown_message error) ''Failed to start screen sharing'',
           err_code = None, err_type = Unknown\<rparr>))]"
  "getScreenShareState (mgr (screenshare_start_catch w sid rid error now)) sid = None"
  "etype (last (getMetrics (mgr (screenshare_start_catch w sid rid error now)) sid)) = Error"
  by (simp_all add: screenshare_start_catch_def handleScreenShareError_def Let_def emit_def
        getScreenShareState_def activeScreenShares_addToHistory
        last_getMetrics_addToHistory)

text \<open>
  Whatever the world, the disconnect handler sends at most the chat notice: the
  screen-share notice is guarded by a state that \<open>cleanup\<close> has just deleted.
\<close>

lemma disconnect_sends_at_most_chat_notice:
  "outbox (on_disconnect w sid t1 t2) = outbox w
   \<or> (\<exists>r n. outbox (on_disconnect w sid t1 t2) = outbox w @
         [Emit (To_room (''chat:'' @ r)) ''chat:system'' (Chat_system (n @ '' left the chat'') t1)])"
  by (simp add: on_disconnect_def disconnect_notices_def Let_def removeUser_def emit_def
        sharing_now_def getScreenShareState_def cleanup_def current_room_def
        split: option.splits)

lemma world1_state:
  "getScreenShareState (mgr world1) ''u1'' =
     Some \<lparr>isScreenSharing = True, micOn = True, camOn = False, quality = Some Medium,
           displaySurface = Some ''unknown''\<rparr>"
  "getScreenShareState (mgr world1) ''u2'' = None"
  "roomSockets world1 ''r1'' = [''u1'', ''u2'']"
  "rooms world1 ''r9'' = None"
  by (simp_all add: world1_def world0_def screenshare_start_try_unfold startScreenShare_def Let_def
        emit_def getScreenShareState_def activeScreenShares_addToHistory roomSockets_def
        new_manager_def determineQuality_1080p surface_label_requesting)

lemma world1_history:
  "getMetrics (mgr world1) ''u1'' =
     [\<lparr>etype = Start, edata = Some (Start_data (requesting 1920 1080)), timestamp = 1000,
       userId = ''u1'', roomId = ''r1''\<rparr>]"
  by (simp add: world1_def world0_def screenshare_start_try_unfold startScreenShare_def Let_def
        emit_def addToHistory_def getMetrics_def new_manager_def)

section \<open>The claims\<close>

text \<open>
  C1. After the disconnect of an identity X that is sharing in room R, every remaining
  member of R is to receive exactly one \<open>screenshare:peer-stopped\<close> notice with reason
  \<open>user-disconnected\<close>, and \<open>get(X)\<close> is to return None. The handler deletes the state
  of X (\<open>cleanup\<close>) before it reads that state to decide on the notice, so the notice is
  never sent. In the scenario of the specification (\<open>u1\<close> sharing in \<open>r1\<close>, \<open>u2\<close> in
  the room), the disconnect of \<open>u1\<close> sends the chat notice and nothing else; the state
  of \<open>u1\<close> is gone afterwards, as the claim says.
\<close>

theorem disconnect_omits_stop_notice:
  "sharing_now (mgr world1) ''u1''
   \<and> roomSockets world1 ''r1'' = [''u1'', ''u2'']
   \<and> outbox (on_disconnect world1 ''u1'' 2000 2001) = outbox world1 @
        [Emit (To_room ''chat:r1'') ''chat:system'' (Chat_system ''alice left the chat'' 2000)]
   \<and> getScreenShareState (mgr (on_disconnect world1 ''u1'' 2000 2001)) ''u1'' = None"
  by (simp add: world1_def world0_def screenshare_start_try_unfold startScreenShare_def Let_def
        emit_def getScreenShareState_def addToHistory_def sharing_now_def roomSockets_def
        on_disconnect_def disconnect_notices_def current_room_def cleanup_def removeUser_def
        new_manager_def)

text \<open>
  C2, as stated: the tier is the threshold function of the requested width and height.
  It fails for a requested width of 0 with height 1080: \<open>0 || 1920\<close> is 1920, so the
  code answers medium where the thresholds on the request give low.
\<close>

theorem quality_zero_width_counterexample:
  "determineQuality (requesting 0 1080) = Medium \<and> spec_tier 0 1080 = Low"
  by (simp add: determineQuality_def or_default_def classify_def spec_tier_def
        ideal_of_requesting Let_def)

text \<open>
  C2, amended: for a requested width and height that are both numbers other than zero,
  the tier is a function of the two alone, given by the thresholds in descending order
  (ultra from 3840 by 2160, high from 2560 by 1440, medium from 1920 by 1080, low below),
  a pair exactly at a threshold falling in the higher tier.
\<close>

theorem quality_thresholds:
  assumes "ideal_of width c = Some (Fin w)" and "ideal_of height c = Some (Fin h)"
    and "w \<noteq> 0" and "h \<noteq> 0"
  shows "determineQuality c = spec_tier w h"
  using assms
  by (simp add: determineQuality_def or_default_def classify_def spec_tier_def Let_def)

theorem quality_thresholds_witness:
  "determineQuality (requesting 3840 2160) = Ultra
   \<and> determineQuality (requesting 2560 1440) = High
   \<and> determineQuality (requesting 1920 1080) = Medium
   \<and> determineQuality (requesting 640 480) = Low"
  using quality_thresholds[of "requesting 3840 2160" 3840 2160]
    quality_thresholds[of "requesting 2560 1440" 2560 1440]
    quality_thresholds[of "requesting 1920 1080" 1920 1080]
    quality_thresholds[of "requesting 640 480" 640 480]
  by (simp add: ideal_of_requesting spec_tier_def)

text \<open>
  C3. No history ever holds more than 50 events, whatever public operations have run
  since the manager was created. After any sequence of appends to a new manager, the
  history of an identity is the last 50 of the events appended for it, in the order of
  their arrival; after 51 of them, it is all but the first.
\<close>

theorem history_bounded_fifo:
  "length (getMetrics (run_ops ops new_manager) uid) \<le> 50
   \<and> length (getMetrics (append_all xs new_manager) uid) \<le> 50
   \<and> getMetrics (append_all xs new_manager) uid
       = drop (length (appended_for uid xs) - 50) (appended_for uid xs)
   \<and> (length (appended_for uid xs) = 51 \<longrightarrow>
        getMetrics (append_all xs new_manager) uid = tl (appended_for uid xs))"
proof -
  have ops: "length (getMetrics (run_ops ops new_manager) uid) \<le> 50"
    by (rule run_ops_bounded) (simp add: getMetrics_new_manager)
  have fifo: "getMetrics (append_all xs new_manager) uid
       = drop (length (appended_for uid xs) - 50) (appended_for uid xs)"
    using append_all_last50[of new_manager uid xs] by (simp add: getMetrics_new_manager)
  show ?thesis by (simp add: ops fifo drop_Suc)
qed

theorem history_bounded_fifo_witness:
  "length (appended_for ''u1'' (map (\<lambda>n. (''u1'', tick ''u1'' n)) [0..<51])) = 51
   \<and> getMetrics (append_all (map (\<lambda>n. (''u1'', tick ''u1'' n)) [0..<51]) new_manager) ''u1''
       = map (tick ''u1'') [1..<51]"
proof -
  let ?xs = "map (\<lambda>n. (''u1'', tick ''u1'' n)) [0..<51]"
  have a: "appended_for ''u1'' ?xs = map (tick ''u1'') [0..<51]"
    by (simp add: appended_for_def filter_map comp_def del: upt_Suc)
  have l: "length (appended_for ''u1'' ?xs) = 51"
    by (simp add: a del: upt_Suc)
  have t: "tl (appended_for ''u1'' ?xs) = map (tick ''u1'') [1..<51]"
    by (simp add: a map_tl[symmetric] del: upt_Suc)
  from history_bounded_fifo[of "[]" "''u1''" ?xs] l t show ?thesis
    by (simp add: drop_Suc)
qed

text \<open>
  C4. After \<open>handleScreenShareError\<close> for an identity, that identity has no entry among
  the active states (\<open>get\<close> returns None), the event returned is of kind error with the
  error as its payload, and it is the newest entry of the identity's history (appended
  to what was there, when there was room).
\<close>

theorem error_clears_state:
  "getScreenShareState (snd (handleScreenShareError uid rid err now m)) uid = None
   \<and> uid \<notin> dom (activeScreenShares (snd (handleScreenShareError uid rid err now m)))
   \<and> fst (handleScreenShareError uid rid err now m)
        = \<lparr>etype = Error, edata = Some (Error_data err), timestamp = now,
           userId = uid, roomId = rid\<rparr>
   \<and> getMetrics (snd (handleScreenShareError uid rid err now m)) uid \<noteq> []
   \<and> last (getMetrics (snd (handleScreenShareError uid rid err now m)) uid)
        = fst (handleScreenShareError uid rid err now m)
   \<and> (length (getMetrics m uid) < 50 \<longrightarrow>
        getMetrics (snd (handleScreenShareError uid rid err now m)) uid
          = getMetrics m uid @ [fst (handleScreenShareError uid rid err now m)])"
  by (cases "getMetrics m uid")
     (auto simp: handleScreenShareError_def Let_def getScreenShareState_def addToHistory_def
        getMetrics_def split: option.splits)

theorem error_clears_state_witness:
  "length (getMetrics (mgr world1) ''u1'') < 50
   \<and> getScreenShareState (mgr world1) ''u1'' \<noteq> None
   \<and> getScreenShareState (snd (handleScreenShareError ''u1'' ''r1''
        \<lparr>err_name = ''NotAllowedError'', err_message = ''denied'', err_code = None,
         err_type = Permission\<rparr> 3000 (mgr world1))) ''u1'' = None
   \<and> map etype (getMetrics (snd (handleScreenShareError ''u1'' ''r1''
        \<lparr>err_name = ''NotAllowedError'', err_message = ''denied'', err_code = None,
         err_type = Permission\<rparr> 3000 (mgr world1))) ''u1'') = [Start, Error]"
proof -
  from error_clears_state[of "''u1''" "''r1''"
      "\<lparr>err_name = ''NotAllowedError'', err_message = ''denied'', err_code = None,
        err_type = Permission\<rparr>" 3000 "mgr world1"]
  show ?thesis by (simp add: world1_history world1_state)
qed

text \<open>
  C5. \<open>stopScreenShare\<close> always returns an event of kind stop. For an identity with no
  active state it leaves the table of active states as it was (no record is created, and
  \<open>get\<close> still returns None); for an identity with a state it sets the sharing flag to
  false and the camera flag to true, keeping the other fields.
\<close>

theorem stop_without_share:
  "fst (stopScreenShare uid rid now m)
      = \<lparr>etype = Stop, edata = None, timestamp = now, userId = uid, roomId = rid\<rparr>
   \<and> (getScreenShareState m uid = None \<longrightarrow>
        getScreenShareState (snd (stopScreenShare uid rid now m)) uid = None
        \<and> activeScreenShares (snd (stopScreenShare uid rid now m)) = activeScreenShares m)
   \<and> (\<forall>st. getScreenShareState m uid = Some st \<longrightarrow>
        getScreenShareState (snd (stopScreenShare uid rid now m)) uid
          = Some (st\<lparr>isScreenSharing := False, camOn := True\<rparr>))"
  by (auto simp: stopScreenShare_def Let_def getScreenShareState_def addToHistory_def
        split: option.splits)

theorem stop_without_share_witness:
  "getScreenShareState (mgr world1) ''u2'' = None
   \<and> getScreenShareState (snd (stopScreenShare ''u2'' ''r1'' 3000 (mgr world1))) ''u2'' = None
   \<and> etype (fst (stopScreenShare ''u2'' ''r1'' 3000 (mgr world1))) = Stop
   \<and> getScreenShareState (snd (stopScreenShare ''u1'' ''r1'' 3000 (mgr world1))) ''u1''
       = Some \<lparr>isScreenSharing = False, micOn = True, camOn = True, quality = Some Medium,
               displaySurface = Some ''unknown''\<rparr>"
  using stop_without_share[of "''u2''" "''r1''" 3000 "mgr world1"]
    stop_without_share[of "''u1''" "''r1''" 3000 "mgr world1"]
  by (simp add: world1_state)

text \<open>
  C6. The \<open>screenshare:start\<close> handler, given a payload, runs to its end and produces
  three effects in this order: the write of the start to the store, the
  \<open>screenshare:peer-started\<close> broadcast to the room without the sender, the
  \<open>screenshare:start-success\<close> to the sender. The outbox grows by exactly these two
  messages. The state carried by the broadcast is the one the store holds after the
  write and at the end of the handler: sharing, camera off, with the tier and surface of
  the request, whatever the store held before.
\<close>

theorem start_commits_before_broadcast:
  "on_screenshare_start w sid (Some p) now
     = Completed (fst (screenshare_start_run w sid p now))
   \<and> snd (screenshare_start_run w sid p now) =
       [Store_write (snd (startScreenShare sid (sp_roomId p) (sp_constraints p) now (mgr w))),
        Sent (Emit (To_room_except (sp_roomId p) sid) ''screenshare:peer-started''
                (Peer_started sid
                   (Some \<lparr>isScreenSharing = True, micOn = True, camOn = False,
                          quality = Some (determineQuality (sp_constraints p)),
                          displaySurface = Some (surface_label (sp_constraints p))\<rparr>)
                   now)),
        Sent (Emit (To_socket sid) ''screenshare:start-success''
                (Start_success \<lparr>etype = Start, edata = Some (Start_data (sp_constraints p)),
                   timestamp = now, userId = sid, roomId = sp_roomId p\<rparr>))]
   \<and> outbox (fst (screenshare_start_run w sid p now)) = outbox w @
       [Emit (To_room_except (sp_roomId p) sid) ''screenshare:peer-started''
          (Peer_started sid
             (Some \<lparr>isScreenSharing = True, micOn = True, camOn = False,
                    quality = Some (determineQuality (sp_constraints p)),
                    displaySurface = Some (surface_label (sp_constraints p))\<rparr>)
             now),
        Emit (To_socket sid) ''screenshare:start-success''
          (Start_success \<lparr>etype = Start, edata = Some (Start_data (sp_constraints p)),
             timestamp = now, userId = sid, roomId = sp_roomId p\<rparr>)]
   \<and> mgr (fst (screenshare_start_run w sid p now))
       = snd (startScreenShare sid (sp_roomId p) (sp_constraints p) now (mgr w))
   \<and> getScreenShareState (mgr (fst (screenshare_start_run w sid p now))) sid
       = Some \<lparr>isScreenSharing = True, micOn = True, camOn = False,
               quality = Some (determineQuality (sp_constraints p)),
               displaySurface = Some (surface_label (sp_constraints p))\<rparr>"
  by (simp add: on_screenshare_start_def screenshare_start_try_def screenshare_start_run_def
        commit_def send_def startScreenShare_def Let_def emit_def getScreenShareState_def
        activeScreenShares_addToHistory)

text \<open>
  In the scenario: \<open>u1\<close> starts a 1920 by 1080 share in \<open>r1\<close> at time 1000, while the
  store holds nothing for \<open>u1\<close>. The broadcast already carries the new state.
\<close>

theorem start_commits_before_broadcast_witness:
  "getScreenShareState (mgr world0) ''u1'' = None
   \<and> on_screenshare_start world0 ''u1''
        (Some \<lparr>sp_roomId = ''r1'', sp_constraints = requesting 1920 1080\<rparr>) 1000
       = Completed world1
   \<and> outbox world1 =
       [Emit (To_room_except ''r1'' ''u1'') ''screenshare:peer-started''
          (Peer_started ''u1''
             (Some \<lparr>isScreenSharing = True, micOn = True, camOn = False,
                    quality = Some Medium, displaySurface = Some ''unknown''\<rparr>)
             1000),
        Emit (To_socket ''u1'') ''screenshare:start-success''
          (Start_success \<lparr>etype = Start, edata = Some (Start_data (requesting 1920 1080)),
             timestamp = 1000, userId = ''u1'', roomId = ''r1''\<rparr>)]
   \<and> map (\<lambda>e. case e of Store_write m \<Rightarrow> ''write'' | Sent x \<Rightarrow> ''send'')
        (snd (screenshare_start_run world0 ''u1''
               \<lparr>sp_roomId = ''r1'', sp_constraints = requesting 1920 1080\<rparr> 1000))
       = [''write'', ''send'', ''send'']"
proof -
  have e: "outbox world0 = []" "getScreenShareState (mgr world0) ''u1'' = None"
    by (simp_all add: world0_def getScreenShareState_def new_manager_def)
  from start_commits_before_broadcast[of world0 "''u1''"
      "\<lparr>sp_roomId = ''r1'', sp_constraints = requesting 1920 1080\<rparr>" 1000]
  show ?thesis
    by (simp add: e world1_def screenshare_start_try_def determineQuality_1080p
          surface_label_requesting)
qed

text \<open>
  C7. Every exception thrown in the \<open>screenshare:start\<close> handler is to be caught and
  turned into a \<open>screenshare:error\<close> for the origin, with an error event recorded. A
  \<open>screenshare:start\<close> that arrives without a payload throws while the parameter is
  destructured, outside the \<open>try\<close> block: the exception leaves the handler, nothing is
  sent to the origin and nothing is recorded.
\<close>

theorem start_without_payload_escapes:
  "on_screenshare_start world0 ''u1'' None 1000 = Uncaught ''TypeError'' world0
   \<and> outbox world0 = []
   \<and> getMetrics (mgr world0) ''u1'' = []"
  by (simp add: on_screenshare_start_def world0_def getMetrics_new_manager)

text \<open>
  C8. A room-state query with its callback is answered by one call of that callback,
  and changes nothing else. The data are the pairs of a member of the room and its
  state, for the members whose state exists and is sharing, each once when the member
  set lists each member once; a room unknown to the transport gives the empty list.
\<close>

theorem room_state_reply:
  "on_get_room_state w sid (Some rid) True
      = Completed (w\<lparr>outbox := outbox w @ [Reply sid (Room_state (room_state_data w rid))]\<rparr>)
   \<and> set (room_state_data w rid) =
       {(u, st). u \<in> set (roomSockets w rid) \<and> getScreenShareState (mgr w) u = Some st
                 \<and> isScreenSharing st}
   \<and> (distinct (roomSockets w rid) \<longrightarrow> distinct (room_state_data w rid))
   \<and> (rooms w rid = None \<longrightarrow> room_state_data w rid = [])"
  by (simp add: room_state_set room_state_distinct on_get_room_state_def emit_def)
     (simp add: room_state_data_def roomSockets_def)

theorem room_state_reply_witness:
  "distinct (roomSockets world1 ''r1'')
   \<and> set (room_state_data world1 ''r1'') =
       {(''u1'', \<lparr>isScreenSharing = True, micOn = True, camOn = False, quality = Some Medium,
                  displaySurface = Some ''unknown''\<rparr>)}
   \<and> rooms world1 ''r9'' = None
   \<and> on_get_room_state world1 ''u2'' (Some ''r9'') True
       = Completed (world1\<lparr>outbox := outbox world1 @ [Reply ''u2'' (Room_state [])]\<rparr>)"
proof -
  have d: "room_state_data world1 ''r1'' =
     [(''u1'', \<lparr>isScreenSharing = True, micOn = True, camOn = False, quality = Some Medium,
                displaySurface = Some ''unknown''\<rparr>)]"
    by (simp add: room_state_data_def room_state_step_def world1_state)
  from room_state_reply[of world1 "''u2''" "''r1''"] room_state_reply[of world1 "''u2''" "''r9''"]
  show ?thesis by (simp add: d world1_state)
qed

text \<open>
  C9, as stated: whenever the ideal width or the ideal height is absent, the tier is
  medium. It fails for \<open>{ video: { height: { ideal: 480 } } }\<close>: the width is absent,
  the default 1920 stands in for it alone, and 1920 by 480 is low.
\<close>

theorem absent_width_low_counterexample:
  "\<not> ((ideal_of width (requesting_height 480) = None
        \<or> ideal_of height (requesting_height 480) = None)
       \<longrightarrow> determineQuality (requesting_height 480) = Medium)"
  by (simp add: ideal_of_requesting_height determineQuality_def or_default_def classify_def
        Let_def)

text \<open>
  C9, amended: an absent ideal is replaced by its default, 1920 for the width and 1080
  for the height, and the other one is kept. With both absent, as in the \<open>{}\<close> of the
  automatic start on \<open>media-state-change\<close>, the state stored by \<open>startScreenShare\<close>
  has tier medium. With one absent and the other a number other than zero, the tier is
  medium when that number reaches its 1080p threshold and low otherwise.
\<close>

theorem absent_ideals_default:
  "(ideal_of width c = None \<and> ideal_of height c = None \<longrightarrow>
      map_option quality (getScreenShareState (snd (startScreenShare uid rid c now m)) uid)
        = Some (Some Medium))
   \<and> (ideal_of width c1 = None \<and> ideal_of height c1 = Some (Fin h) \<and> h \<noteq> 0 \<longrightarrow>
        determineQuality c1 = (if h \<ge> 1080 then Medium else Low))
   \<and> (ideal_of height c2 = None \<and> ideal_of width c2 = Some (Fin x) \<and> x \<noteq> 0 \<longrightarrow>
        determineQuality c2 = (if x \<ge> 1920 then Medium else Low))
   \<and> (current_room w sid = Some r \<and> \<not> sharing_now (mgr w) sid
        \<and> mp_isScreenSharing p = Flag True \<longrightarrow>
        (\<exists>w'. on_media_state_change w sid (Some p) t = Completed w'
           \<and> map_option quality (getScreenShareState (mgr w') sid) = Some (Some Medium)))"
  by (auto simp: determineQuality_def or_default_def classify_def Let_def startScreenShare_def
        getScreenShareState_def activeScreenShares_addToHistory on_media_state_change_def
        reconcile_def emit_def ideal_of_empty_object)

theorem absent_ideals_default_witness:
  "map_option quality (getScreenShareState
      (snd (startScreenShare ''u2'' ''r1'' (Some \<lparr>video = None, audio = None\<rparr>) 3000
              (mgr world1))) ''u2'') = Some (Some Medium)
   \<and> determineQuality (requesting_height 480) = Low
   \<and> determineQuality (requesting_height 1080) = Medium
   \<and> determineQuality (requesting_width 640) = Low
   \<and> determineQuality (requesting_width 2560) = Medium
   \<and> current_room world1 ''u2'' = Some ''r1'' \<and> \<not> sharing_now (mgr world1) ''u2''
   \<and> (\<exists>w'. on_media_state_change world1 ''u2''
              (Some \<lparr>mp_isScreenSharing = Flag True, mp_micOn = Flag True,
                     mp_camOn = Flag False\<rparr>) 3000 = Completed w'
         \<and> map_option quality (getScreenShareState (mgr w') ''u2'') = Some (Some Medium))"
proof -
  have r: "current_room world1 ''u2'' = Some ''r1''"
    by (simp add: current_room_def world1_def world0_def screenshare_start_try_unfold
          startScreenShare_def Let_def emit_def)
  have s: "\<not> sharing_now (mgr world1) ''u2''"
    by (simp add: sharing_now_def world1_state)
  from absent_ideals_default[of "Some \<lparr>video = None, audio = None\<rparr>" "''u2''" "''r1''" 3000
      "mgr world1" "requesting_height 480" 480 "requesting_width 640" 640 world1 "''u2''"
      "''r1''" "\<lparr>mp_isScreenSharing = Flag True, mp_micOn = Flag True, mp_camOn = Flag False\<rparr>"
      3000]
    absent_ideals_default[of "Some \<lparr>video = None, audio = None\<rparr>" "''u2''" "''r1''" 3000
      "mgr world1" "requesting_height 1080" 1080 "requesting_width 2560" 2560 world1 "''u2''"
      "''r1''" "\<lparr>mp_isScreenSharing = Flag True, mp_micOn = Flag True, mp_camOn = Flag False\<rparr>"
      3000]
  show ?thesis
    by (simp add: r s ideal_of_empty_object ideal_of_requesting_height
          ideal_of_requesting_width)
qed

text \<open>
  C10. \<open>cleanup\<close> deletes the active state of its identity and of no other, and leaves
  the table of histories as it was: \<open>getMetrics\<close> answers as before for every identity,
  also after the whole disconnect handler has run.
\<close>

theorem cleanup_keeps_history:
  "screenShareHistory (cleanup uid m) = screenShareHistory m
   \<and> getMetrics (cleanup uid m) u = getMetrics m u
   \<and> getScreenShareState (cleanup uid m) uid = None
   \<and> (u \<noteq> uid \<longrightarrow> getScreenShareState (cleanup uid m) u = getScreenShareState m u)
   \<and> getMetrics (mgr (on_disconnect w uid t1 t2)) u = getMetrics (mgr w) u"
  by (auto simp: cleanup_def getMetrics_def getScreenShareState_def on_disconnect_def Let_def
        disconnect_notices_def removeUser_def emit_def split: option.splits)

theorem cleanup_keeps_history_witness:
  "''u1'' \<noteq> ''u2''
   \<and> getScreenShareState (cleanup ''u2'' (mgr world1)) ''u1''
       = Some \<lparr>isScreenSharing = True, micOn = True, camOn = False, quality = Some Medium,
               displaySurface = Some ''unknown''\<rparr>
   \<and> getScreenShareState (cleanup ''u1'' (mgr world1)) ''u1'' = None
   \<and> map etype (getMetrics (mgr (on_disconnect world1 ''u1'' 2000 2001)) ''u1'') = [Start]"
proof -
  from cleanup_keeps_history[of "''u2''" "mgr world1" "''u1''" world1 2000 2001]
    cleanup_keeps_history[of "''u1''" "mgr world1" "''u1''" world1 2000 2001]
  show ?thesis by (simp add: world1_history world1_state)
qed

end
